theory Spec2Isabelle
  imports Main
begin

section \<open>Package reports: request parameters\<close>

text \<open>
  A \<open>time.Time\<close> is an instant (seconds and nanoseconds counted from January 1 of
  year 1, 00:00:00 UTC) together with a location. \<open>IsZero\<close> is the standard library's
  test \<open>t.sec() == 0 && t.nsec() == 0\<close>. \<open>Time.Format\<close> belongs to the standard
  library and is a parameter of \<open>values\<close> below.
\<close>

record Time =
  sec :: int
  nsec :: int
  loc :: string

definition IsZero :: "Time \<Rightarrow> bool" where
  "IsZero t = (sec t = 0 \<and> nsec t = 0)"

record StandardRequestParameters =
  UserAgent :: string
  WorkSpaceId :: string
  Since :: Time
  Until :: Time
  Billable :: string
  ClientIds :: string
  ProjectIds :: string
  UserIds :: string
  MembersOfGroupIds :: string
  OrMembersOfGroupIds :: string
  TagIds :: string
  TaskIds :: string
  TimeEntryIds :: string
  Description :: string
  WithoutDescription :: bool
  OrderField :: string
  OrderDesc :: bool
  DistinctRates :: bool
  Rounding :: bool
  DisplayHours :: string

text \<open>
  \<open>url.Values\<close> is \<open>map[string][]string\<close>. \<open>Add\<close> is
  \<open>v[key] = append(v[key], value)\<close>; the receiver comes last, so that
  \<open>Add key value\<close> is the statement \<open>values.Add(key, value)\<close>.
\<close>

type_synonym Values = "string \<rightharpoonup> string list"

definition Add :: "string \<Rightarrow> string \<Rightarrow> Values \<Rightarrow> Values" where
  "Add key val v = v(key \<mapsto> (case v key of None \<Rightarrow> [] | Some vs \<Rightarrow> vs) @ [val])"

text \<open>
  An \<open>if\<close> without \<open>else\<close> around a statement, and a block of statements run in
  order on the variable \<open>values\<close>.
\<close>

definition guarded :: "bool \<Rightarrow> ('s \<Rightarrow> 's) \<Rightarrow> 's \<Rightarrow> 's" where
  "guarded b stmt s = (if b then stmt s else s)"

definition block :: "('s \<Rightarrow> 's) list \<Rightarrow> 's \<Rightarrow> 's" where
  "block stmts s = fold (\<lambda>stmt acc. stmt acc) stmts s"

definition "values" :: "(Time \<Rightarrow> string \<Rightarrow> string) \<Rightarrow> StandardRequestParameters \<Rightarrow> Values" where
  "values Format params = block [
     Add ''user_agent'' (UserAgent params),
     Add ''workspace_id'' (WorkSpaceId params),
     guarded (\<not> IsZero (Since params)) (Add ''since'' (Format (Since params) ''2006-01-02'')),
     guarded (\<not> IsZero (Until params)) (Add ''until'' (Format (Until params) ''2006-01-02'')),
     guarded (Billable params \<noteq> '''') (Add ''billable'' (Billable params)),
     guarded (ClientIds params \<noteq> '''') (Add ''client_ids'' (ClientIds params)),
     guarded (ProjectIds params \<noteq> '''') (Add ''project_ids'' (ProjectIds params)),
     guarded (UserIds params \<noteq> '''') (Add ''user_ids'' (UserIds params)),
     guarded (MembersOfGroupIds params \<noteq> '''') (Add ''members_of_group_ids'' (MembersOfGroupIds params)),
     guarded (OrMembersOfGroupIds params \<noteq> '''') (Add ''or_members_of_group_ids'' (OrMembersOfGroupIds params)),
     guarded (TagIds params \<noteq> '''') (Add ''tag_ids'' (TagIds params)),
     guarded (TaskIds params \<noteq> '''') (Add ''task_ids'' (TaskIds params)),
     guarded (TimeEntryIds params \<noteq> '''') (Add ''time_entry_ids'' (TimeEntryIds params)),
     guarded (Description params \<noteq> '''') (Add ''description'' (Description params)),
     guarded (WithoutDescription params = True) (Add ''without_description'' ''true''),
     guarded (OrderField params \<noteq> '''') (Add ''order_field'' (OrderField params)),
     guarded (OrderDesc params = True) (Add ''order_desc'' ''on''),
     guarded (DistinctRates params = True) (Add ''distinct_rates'' ''on''),
     guarded (Rounding params = True) (Add ''rounding'' ''on''),
     guarded (DisplayHours params \<noteq> '''') (Add ''display_hours'' (DisplayHours params))
   ] Map.empty"

text \<open>The zero values of the two struct types, and a formatter for inputs on which
  \<open>values\<close> never formats (both times zero).\<close>

definition zero_Time :: Time where
  "zero_Time = \<lparr>sec = 0, nsec = 0, loc = ''UTC''\<rparr>"

definition zero_params :: StandardRequestParameters where
  "zero_params = \<lparr>UserAgent = '''', WorkSpaceId = '''', Since = zero_Time, Until = zero_Time,
     Billable = '''', ClientIds = '''', ProjectIds = '''', UserIds = '''',
     MembersOfGroupIds = '''', OrMembersOfGroupIds = '''', TagIds = '''', TaskIds = '''',
     TimeEntryIds = '''', Description = '''', WithoutDescription = False, OrderField = '''',
     OrderDesc = False, DistinctRates = False, Rounding = False, DisplayHours = ''''\<rparr>"

definition no_Format :: "Time \<Rightarrow> string \<Rightarrow> string" where
  "no_Format t layout = ''''"

section \<open>JSON values and the decoder of encoding/json\<close>

text \<open>
  A response body is read by \<open>json.NewDecoder(resp.Body).Decode(out)\<close>. The decoder
  first reads one JSON value off the stream and then stores it into \<open>out\<close> by the
  rules of \<open>json.Unmarshal\<close>. A body is modelled by what that first step yields: the
  value read, or the error of reading (\<open>io.EOF\<close> on an empty body, a syntax error on
  text that is not JSON, such as an HTML page). A number literal with a fraction or an
  exponent is kept as text (\<open>JFraction\<close>).
\<close>

datatype json =
    JNull
  | JBool bool
  | JNumber int
  | JFraction string
  | JString string
  | JArray "json list"
  | JObject "(string \<times> json) list"

datatype json_error =
    EOF
  | SyntaxError string
  | UnmarshalTypeError string string  \<comment> \<open>the JSON value's kind, the Go field\<close>
  | TimeError string

datatype body = NoJSON json_error | JSON json

text \<open>
  Storing goes on after a value of the wrong kind (the first such error is saved and
  returned at the end); an error of an \<open>UnmarshalJSON\<close> method stops it at once.
\<close>

datatype stored = Clean | Saved json_error | Aborted json_error

fun merge :: "stored \<Rightarrow> stored \<Rightarrow> stored" where
  "merge st (Aborted e) = Aborted e"
| "merge Clean st' = st'"
| "merge st st' = st"

fun error_of :: "stored \<Rightarrow> json_error option" where
  "error_of Clean = None"
| "error_of (Saved e) = Some e"
| "error_of (Aborted e) = Some e"

fun kindOf :: "json \<Rightarrow> string" where
  "kindOf JNull = ''null''"
| "kindOf (JBool b) = ''bool''"
| "kindOf (JNumber n) = ''number''"
| "kindOf (JFraction s) = ''number''"
| "kindOf (JString s) = ''string''"
| "kindOf (JArray vs) = ''array''"
| "kindOf (JObject kvs) = ''object''"

text \<open>A \<open>null\<close> leaves a string, a number or a struct as it is.\<close>

definition store_string :: "string \<Rightarrow> json \<Rightarrow> string \<Rightarrow> stored \<times> string" where
  "store_string field v old =
     (case v of
        JNull \<Rightarrow> (Clean, old)
      | JString s \<Rightarrow> (Clean, s)
      | _ \<Rightarrow> (Saved (UnmarshalTypeError (kindOf v) field), old))"

text \<open>Go's \<open>int\<close> has 64 bits on the platforms the package is built for.\<close>

definition store_int :: "string \<Rightarrow> json \<Rightarrow> int \<Rightarrow> stored \<times> int" where
  "store_int field v old =
     (case v of
        JNull \<Rightarrow> (Clean, old)
      | JNumber n \<Rightarrow>
          (if - (2 ^ 63) \<le> n \<and> n < 2 ^ 63 then (Clean, n)
           else (Saved (UnmarshalTypeError (kindOf v) field), old))
      | _ \<Rightarrow> (Saved (UnmarshalTypeError (kindOf v) field), old))"

text \<open>
  The keys of an object are stored in the order they come, each into the field the
  function \<open>f\<close> chooses for it; a key met twice is stored twice.
\<close>

fun store_fields ::
  "(string \<Rightarrow> json \<Rightarrow> 's \<Rightarrow> stored \<times> 's) \<Rightarrow> (string \<times> json) list \<Rightarrow> 's \<Rightarrow> stored \<times> 's" where
  "store_fields f [] s = (Clean, s)"
| "store_fields f ((k, v) # kvs) s =
     (case f k v s of
        (Aborted e, s') \<Rightarrow> (Aborted e, s')
      | (st, s') \<Rightarrow> (case store_fields f kvs s' of (st', s'') \<Rightarrow> (merge st st', s'')))"

definition store_struct ::
  "(string \<Rightarrow> json \<Rightarrow> 's \<Rightarrow> stored \<times> 's) \<Rightarrow> string \<Rightarrow> json \<Rightarrow> 's \<Rightarrow> stored \<times> 's" where
  "store_struct f field v s =
     (case v of
        JNull \<Rightarrow> (Clean, s)
      | JObject kvs \<Rightarrow> store_fields f kvs s
      | _ \<Rightarrow> (Saved (UnmarshalTypeError (kindOf v) field), s))"

text \<open>
  A pointer field: \<open>null\<close> sets it to nil; any other value is stored into what it
  points to, allocated at the type's zero value when the pointer is nil.
\<close>

definition store_ptr ::
  "(json \<Rightarrow> 'a \<Rightarrow> stored \<times> 'a) \<Rightarrow> 'a \<Rightarrow> json \<Rightarrow> 'a option \<Rightarrow> stored \<times> 'a option" where
  "store_ptr f zero v old =
     (case v of
        JNull \<Rightarrow> (Clean, None)
      | _ \<Rightarrow> (case f v (case old of None \<Rightarrow> zero | Some x \<Rightarrow> x) of (st, x) \<Rightarrow> (st, Some x)))"

text \<open>
  A slice (nil is \<open>None\<close>): \<open>null\<close> sets it to nil; an array stores element \<open>i\<close>
  into the slice's element \<open>i\<close>, a new zero element beyond the old length, and cuts the
  slice to the array's length. Capacity beyond the length is not modelled.
\<close>

fun store_elems ::
  "(json \<Rightarrow> 'a \<Rightarrow> stored \<times> 'a) \<Rightarrow> 'a \<Rightarrow> json list \<Rightarrow> 'a list \<Rightarrow> stored \<times> 'a list" where
  "store_elems f zero [] old = (Clean, [])"
| "store_elems f zero (v # vs) old =
     (case f v (case old of [] \<Rightarrow> zero | x # xs \<Rightarrow> x) of
        (Aborted e, x') \<Rightarrow> (Aborted e, x' # tl old)
      | (st, x') \<Rightarrow>
          (case store_elems f zero vs (tl old) of (st', xs') \<Rightarrow> (merge st st', x' # xs')))"

definition store_slice ::
  "(json \<Rightarrow> 'a \<Rightarrow> stored \<times> 'a) \<Rightarrow> 'a \<Rightarrow> string \<Rightarrow> json \<Rightarrow> 'a list option
     \<Rightarrow> stored \<times> 'a list option" where
  "store_slice f zero field v old =
     (case v of
        JNull \<Rightarrow> (Clean, None)
      | JArray vs \<Rightarrow>
          (case store_elems f zero vs (case old of None \<Rightarrow> [] | Some xs \<Rightarrow> xs) of
             (st, xs') \<Rightarrow> (st, Some xs'))
      | _ \<Rightarrow> (Saved (UnmarshalTypeError (kindOf v) field), old))"

text \<open>
  A key selects the field whose name (its \<open>json\<close> tag) it equals, or equals up to the
  case of ASCII letters. Folding of letters outside ASCII is not modelled.
\<close>

definition fold_ascii :: "char \<Rightarrow> char" where
  "fold_ascii c =
     (let n = (of_char c :: nat) in if 97 \<le> n \<and> n \<le> 122 then char_of (n - 32) else c)"

definition is_field :: "string \<Rightarrow> string \<Rightarrow> bool" where
  "is_field name key = (key = name \<or> map fold_ascii key = map fold_ascii name)"

text \<open>
  A decoder for the type of \<open>out\<close>: it takes the body and the value \<open>out\<close> points
  to, and returns the error of \<open>Decode\<close> (if any) and the value it leaves there.
\<close>

type_synonym 'a decoder = "body \<Rightarrow> 'a \<Rightarrow> json_error option \<times> 'a"

definition Decode :: "(json \<Rightarrow> 'a \<Rightarrow> stored \<times> 'a) \<Rightarrow> 'a decoder" where
  "Decode store b out =
     (case b of
        NoJSON e \<Rightarrow> (Some e, out)
      | JSON v \<Rightarrow> (case store v out of (st, out') \<Rightarrow> (error_of st, out')))"

section \<open>Package reports: the error of an unsuccessful request\<close>

record ReportsError_Err =
  Message :: string
  Tip :: string
  StatusCode :: int

record ReportsError =
  Err :: ReportsError_Err

definition new_ReportsError :: ReportsError where
  "new_ReportsError = \<lparr>Err = \<lparr>Message = '''', Tip = '''', StatusCode = 0\<rparr>\<rparr>"

text \<open>The fields by their \<open>json\<close> tags: \<open>message\<close>, \<open>tip\<close>, \<open>code\<close> inside \<open>error\<close>.\<close>

definition Err_field :: "string \<Rightarrow> json \<Rightarrow> ReportsError_Err \<Rightarrow> stored \<times> ReportsError_Err" where
  "Err_field key v e =
     (if is_field ''message'' key then
        (case store_string ''Err.Message'' v (Message e) of (st, m) \<Rightarrow> (st, e\<lparr>Message := m\<rparr>))
      else if is_field ''tip'' key then
        (case store_string ''Err.Tip'' v (Tip e) of (st, t) \<Rightarrow> (st, e\<lparr>Tip := t\<rparr>))
      else if is_field ''code'' key then
        (case store_int ''Err.StatusCode'' v (StatusCode e) of (st, c) \<Rightarrow> (st, e\<lparr>StatusCode := c\<rparr>))
      else (Clean, e))"

definition ReportsError_field :: "string \<Rightarrow> json \<Rightarrow> ReportsError \<Rightarrow> stored \<times> ReportsError" where
  "ReportsError_field key v r =
     (if is_field ''error'' key then
        (case store_struct Err_field ''Err'' v (Err r) of (st, e) \<Rightarrow> (st, r\<lparr>Err := e\<rparr>))
      else (Clean, r))"

definition decode_ReportsError :: "ReportsError decoder" where
  "decode_ReportsError = Decode (store_struct ReportsError_field '''')"

text \<open>
  Go's \<open>error\<close> values, by where the pipeline gets them: \<open>fmt.Errorf\<close>, \<open>url.Parse\<close>
  (through \<open>http.NewRequest\<close>), \<open>http.Client.Do\<close>, the JSON decoder, a
  \<open>*ReportsError\<close>, and in package toggl \<open>errors.Wrap\<close>.
\<close>

datatype error =
    ErrorString string
  | URLError string
  | TransportError string
  | JSONError json_error
  | ReportsErr ReportsError
  | Wrapped error string

section \<open>Package reports: the client\<close>

record URL =
  Scheme :: string
  Host :: string
  Path :: string
  RawQuery :: string

datatype Context = Background | Derived nat

record Request =
  Method :: string
  ReqURL :: URL
  BasicAuth :: "(string \<times> string) option"
  Ctx :: Context

record Response =
  Status :: int
  Body :: body

text \<open>
  The field \<open>Status\<close> is \<open>resp.StatusCode\<close> (the name \<open>StatusCode\<close> is
  taken by the field of the error structure). An \<open>*http.Client\<close> is what its
  method \<open>Do\<close> answers to a request: an error or a response. A nil pointer is
  \<open>None\<close>. \<open>http.Header\<close> is \<open>map[string][]string\<close>.
\<close>

type_synonym http_Client = "Request \<Rightarrow> error + Response"

type_synonym Header = "string \<rightharpoonup> string list"

record Client =
  httpClient :: "http_Client option"
  apiToken :: string
  header :: Header
  url :: "URL option"

text \<open>
  What the two packages take from the standard library without defining it:
  \<open>url.Parse\<close>, \<open>URL.String\<close>, \<open>textproto.CanonicalMIMEHeaderKey\<close>,
  \<open>http.DefaultClient\<close>, \<open>path.Join\<close>, and the parsing of an RFC 3339 time by
  \<open>Time.UnmarshalJSON\<close>.
\<close>

record lib =
  Parse :: "string \<Rightarrow> error + URL"
  String :: "URL \<Rightarrow> string"
  CanonicalMIMEHeaderKey :: "string \<Rightarrow> string"
  DefaultClient :: http_Client
  Join :: "string list \<Rightarrow> string"
  ParseTime :: "string \<Rightarrow> Time option"

definition basicAuthPassword :: string where
  "basicAuthPassword = ''api_token''"

definition defaultBaseURL :: string where
  "defaultBaseURL = ''https://toggl.com''"

definition Header_Set :: "lib \<Rightarrow> string \<Rightarrow> string \<Rightarrow> Header \<Rightarrow> Header" where
  "Header_Set L key val h = h(CanonicalMIMEHeaderKey L key \<mapsto> [val])"

definition Header_Get :: "lib \<Rightarrow> string \<Rightarrow> Header \<Rightarrow> string" where
  "Header_Get L key h =
     (case h (CanonicalMIMEHeaderKey L key) of
        None \<Rightarrow> ''''
      | Some [] \<Rightarrow> ''''
      | Some (v # vs) \<Rightarrow> v)"

text \<open>\<open>url, _ := url.Parse(rawurl)\<close>: the error is dropped, the URL is nil when there is one.\<close>

definition Parse_drop_error :: "lib \<Rightarrow> string \<Rightarrow> URL option" where
  "Parse_drop_error L rawurl = (case Parse L rawurl of Inl e \<Rightarrow> None | Inr u \<Rightarrow> Some u)"

type_synonym Option = "Client \<Rightarrow> Client"

definition baseURL :: "lib \<Rightarrow> string \<Rightarrow> Option" where
  "baseURL L rawurl = (\<lambda>c. c\<lparr>url := Parse_drop_error L rawurl\<rparr>)"

definition HTTPClient :: "http_Client option \<Rightarrow> Option" where
  "HTTPClient hc = (\<lambda>c. c\<lparr>httpClient := hc\<rparr>)"

definition NewClient :: "lib \<Rightarrow> string \<Rightarrow> Option list \<Rightarrow> Client" where
  "NewClient L token options =
     (let newClient = \<lparr>httpClient = Some (DefaultClient L), apiToken = token,
                       header = Map.empty, url = Parse_drop_error L defaultBaseURL\<rparr>;
          newClient = newClient\<lparr>header := Header_Set L ''Content-type'' ''application/json'' (header newClient)\<rparr>
      in fold (\<lambda>option c. option c) options newClient)"

text \<open>
  A call either returns or panics (a nil pointer is dereferenced).
\<close>

datatype 'a result = Panic | Return 'a


text \<open>
  \<open>http.NewRequest(method, url, nil)\<close> fails when \<open>url.Parse\<close> does; the request it
  makes carries the background context. \<open>SetBasicAuth\<close> and \<open>WithContext\<close> set one
  field each.
\<close>

definition NewRequest :: "lib \<Rightarrow> string \<Rightarrow> string \<Rightarrow> error + Request" where
  "NewRequest L method rawurl =
     (case Parse L rawurl of
        Inl e \<Rightarrow> Inl e
      | Inr u \<Rightarrow> Inr \<lparr>Method = method, ReqURL = u, BasicAuth = None, Ctx = Background\<rparr>)"

definition SetBasicAuth :: "string \<Rightarrow> string \<Rightarrow> Request \<Rightarrow> Request" where
  "SetBasicAuth username password req = req\<lparr>BasicAuth := Some (username, password)\<rparr>"

definition WithContext :: "Context \<Rightarrow> Request \<Rightarrow> Request" where
  "WithContext ctx req = req\<lparr>Ctx := ctx\<rparr>"

definition decodeJSON :: "'a decoder \<Rightarrow> Response \<Rightarrow> 'a \<Rightarrow> error option \<times> 'a" where
  "decodeJSON dec resp out =
     (case dec (Body resp) out of (e, out') \<Rightarrow> (map_option JSONError e, out'))"

text \<open>
  \<open>checkResponse\<close> takes the two results of \<open>Do\<close>, of which one is nil, and returns
  the response or an error.
\<close>

definition checkResponse :: "error + Response \<Rightarrow> error + Response" where
  "checkResponse r =
     (case r of
        Inl err \<Rightarrow> Inl err
      | Inr resp \<Rightarrow>
          (if Status resp \<le> 199 \<or> 300 \<le> Status resp then
             (case decodeJSON decode_ReportsError resp new_ReportsError of
                (Some err, reportsError) \<Rightarrow> Inl err
              | (None, reportsError) \<Rightarrow> Inl (ReportsErr reportsError))
           else Inr resp))"

text \<open>
  What a call of \<open>get\<close> leaves behind: the error it returns (nil is \<open>None\<close>), the
  value \<open>report\<close> points to, and the requests handed to the HTTP client.
\<close>

record 'a outcome =
  err :: "error option"
  out :: 'a
  sent :: "Request list"

definition get ::
  "lib \<Rightarrow> 'a decoder \<Rightarrow> Client \<Rightarrow> Context option \<Rightarrow> string \<Rightarrow> 'a \<Rightarrow> 'a outcome result" where
  "get L dec c ctx rawurl report =
     (case NewRequest L ''GET'' rawurl of
        Inl e \<Rightarrow> Return \<lparr>err = Some e, out = report, sent = []\<rparr>
      | Inr req0 \<Rightarrow>
          (let req1 = SetBasicAuth (apiToken c) basicAuthPassword req0 in
           case ctx of
             None \<Rightarrow> Return \<lparr>err = Some (ErrorString ''The provided ctx must be non-nil''),
                              out = report, sent = []\<rparr>
           | Some cx \<Rightarrow>
               (let req = WithContext cx req1 in
                case httpClient c of
                  None \<Rightarrow> Panic
                | Some hc \<Rightarrow>
                    (case checkResponse (hc req) of
                       Inl e \<Rightarrow> Return \<lparr>err = Some e, out = report, sent = [req]\<rparr>
                     | Inr resp \<Rightarrow>
                         (case decodeJSON dec resp report of
                            (Some e, report') \<Rightarrow> Return \<lparr>err = Some e, out = report', sent = [req]\<rparr>
                          | (None, report') \<Rightarrow> Return \<lparr>err = None, out = report', sent = [req]\<rparr>)))))"

section \<open>Package toggl: tags\<close>

record Tag =
  ID :: "int option"
  WorkspaceID :: "int option"
  Name :: "string option"
  At :: "Time option"
  DeletedAt :: "Time option"

record CreateTagRequestBody =
  Create_Name :: "string option"
  Create_WorkspaceID :: "int option"

record UpdateTagRequestBody =
  Update_Name :: "string option"
  Update_WorkspaceID :: "int option"

text \<open>\<open>strconv.Itoa\<close>: the decimal digits, with a minus sign before a negative number.\<close>

function digits :: "nat \<Rightarrow> string" where
  "digits n = (if n < 10 then [''0123456789'' ! n]
               else digits (n div 10) @ [''0123456789'' ! (n mod 10)])"
  by pat_completeness auto
termination
  by (relation "measure (\<lambda>n. n)") auto

definition Itoa :: "int \<Rightarrow> string" where
  "Itoa i = (if i < 0 then CHR ''-'' # digits (nat (- i)) else digits (nat i))"

text \<open>\<open>errors.Wrap\<close> returns nil for a nil error and wraps any other with the message.\<close>

fun Wrap :: "error option \<Rightarrow> string \<Rightarrow> error option" where
  "Wrap None message = None"
| "Wrap (Some e) message = Some (Wrapped e message)"

text \<open>
  The request helpers \<open>httpGet\<close>, \<open>httpPost\<close>, \<open>httpPut\<close> and the constant
  \<open>workspacesPath\<close> of package toggl are not among the sources; the four methods take
  them as parameters. A helper gets the receiver, the context, the path, the query
  parameters or request body (nil is \<open>None\<close>) and the value \<open>out\<close> points to, and
  leaves an outcome as \<open>get\<close> does. The method's outcome holds its two results:
  \<open>out\<close> the tags, \<open>err\<close> the error.
\<close>

definition GetTags ::
  "lib \<Rightarrow> string
   \<Rightarrow> ('c \<Rightarrow> Context option \<Rightarrow> string \<Rightarrow> Values option \<Rightarrow> Tag option list option
        \<Rightarrow> Tag option list option outcome result)
   \<Rightarrow> 'c \<Rightarrow> Context option \<Rightarrow> int \<Rightarrow> Tag option list option outcome result" where
  "GetTags L workspacesPath httpGet c ctx workspaceID =
     (let tags = None;
          apiSpecificPath = Join L [workspacesPath, Itoa workspaceID, ''tags'']
      in case httpGet c ctx apiSpecificPath None tags of
           Panic \<Rightarrow> Panic
         | Return r \<Rightarrow>
             (case err r of
                Some e \<Rightarrow> Return \<lparr>err = Wrap (Some e) '''', out = None, sent = sent r\<rparr>
              | None \<Rightarrow> Return \<lparr>err = None, out = out r, sent = sent r\<rparr>))"

definition CreateTag ::
  "lib \<Rightarrow> string
   \<Rightarrow> ('c \<Rightarrow> Context option \<Rightarrow> string \<Rightarrow> CreateTagRequestBody option \<Rightarrow> Tag option
        \<Rightarrow> Tag option outcome result)
   \<Rightarrow> 'c \<Rightarrow> Context option \<Rightarrow> int \<Rightarrow> CreateTagRequestBody option \<Rightarrow> Tag option outcome result" where
  "CreateTag L workspacesPath httpPost c ctx workspaceID reqBody =
     (let tag = None;
          apiSpecificPath = Join L [workspacesPath, Itoa workspaceID, ''tags'']
      in case httpPost c ctx apiSpecificPath reqBody tag of
           Panic \<Rightarrow> Panic
         | Return r \<Rightarrow>
             (case err r of
                Some e \<Rightarrow> Return \<lparr>err = Wrap (Some e) '''', out = None, sent = sent r\<rparr>
              | None \<Rightarrow> Return \<lparr>err = None, out = out r, sent = sent r\<rparr>))"

definition UpdateTag ::
  "lib \<Rightarrow> string
   \<Rightarrow> ('c \<Rightarrow> Context option \<Rightarrow> string \<Rightarrow> UpdateTagRequestBody option \<Rightarrow> Tag option
        \<Rightarrow> Tag option outcome result)
   \<Rightarrow> 'c \<Rightarrow> Context option \<Rightarrow> int \<Rightarrow> int \<Rightarrow> UpdateTagRequestBody option
   \<Rightarrow> Tag option outcome result" where
  "UpdateTag L workspacesPath httpPut c ctx workspaceID tagID reqBody =
     (let tag = None;
          apiSpecificPath = Join L [workspacesPath, Itoa workspaceID, ''tags'', Itoa tagID]
      in case httpPut c ctx apiSpecificPath reqBody tag of
           Panic \<Rightarrow> Panic
         | Return r \<Rightarrow>
             (case err r of
                Some e \<Rightarrow> Return \<lparr>err = Wrap (Some e) '''', out = None, sent = sent r\<rparr>
              | None \<Rightarrow> Return \<lparr>err = None, out = out r, sent = sent r\<rparr>))"

text \<open>\<open>DeleteTag\<close> has the one statement \<open>return nil\<close>.\<close>

definition DeleteTag :: "'c \<Rightarrow> Context option \<Rightarrow> int \<Rightarrow> int \<Rightarrow> unit outcome result" where
  "DeleteTag c ctx workspaceID tagID = Return \<lparr>err = None, out = (), sent = []\<rparr>"

text \<open>The requests a call handed to the HTTP client (none when it panicked before).\<close>

fun requests_of :: "'a outcome result \<Rightarrow> Request list" where
  "requests_of Panic = []"
| "requests_of (Return r) = sent r"

text \<open>
  Decoding into a \<open>Tag\<close>, by the \<open>json\<close> tags of its fields, all of them pointers.
  \<open>Time.UnmarshalJSON\<close> leaves the time alone on \<open>null\<close>, fails on a value that is
  not a string, and on a string assigns the parsed time (the zero time when the string
  does not parse, with the error).
\<close>

definition store_time :: "lib \<Rightarrow> json \<Rightarrow> Time \<Rightarrow> stored \<times> Time" where
  "store_time L v old =
     (case v of
        JNull \<Rightarrow> (Clean, old)
      | JString s \<Rightarrow>
          (case ParseTime L s of
             Some t \<Rightarrow> (Clean, t)
           | None \<Rightarrow> (Aborted (TimeError s), zero_Time))
      | _ \<Rightarrow> (Aborted (TimeError ''Time.UnmarshalJSON: input is not a JSON string''), old))"

definition zero_Tag :: Tag where
  "zero_Tag = \<lparr>ID = None, WorkspaceID = None, Name = None, At = None, DeletedAt = None\<rparr>"

definition Tag_field :: "lib \<Rightarrow> string \<Rightarrow> json \<Rightarrow> Tag \<Rightarrow> stored \<times> Tag" where
  "Tag_field L key v t =
     (if is_field ''id'' key then
        (case store_ptr (store_int ''ID'') 0 v (ID t) of (st, x) \<Rightarrow> (st, t\<lparr>ID := x\<rparr>))
      else if is_field ''workspace_id'' key then
        (case store_ptr (store_int ''WorkspaceID'') 0 v (WorkspaceID t) of
           (st, x) \<Rightarrow> (st, t\<lparr>WorkspaceID := x\<rparr>))
      else if is_field ''name'' key then
        (case store_ptr (store_string ''Name'') '''' v (Name t) of (st, x) \<Rightarrow> (st, t\<lparr>Name := x\<rparr>))
      else if is_field ''at'' key then
        (case store_ptr (store_time L) zero_Time v (At t) of (st, x) \<Rightarrow> (st, t\<lparr>At := x\<rparr>))
      else if is_field ''deleted_at'' key then
        (case store_ptr (store_time L) zero_Time v (DeletedAt t) of
           (st, x) \<Rightarrow> (st, t\<lparr>DeletedAt := x\<rparr>))
      else (Clean, t))"

definition decode_Tag :: "lib \<Rightarrow> Tag option decoder" where
  "decode_Tag L = Decode (store_ptr (store_struct (Tag_field L) ''Tag'') zero_Tag)"

definition decode_Tags :: "lib \<Rightarrow> Tag option list option decoder" where
  "decode_Tags L =
     Decode (store_slice (store_ptr (store_struct (Tag_field L) ''Tag'') zero_Tag) None '''')"

text \<open>
  Modelled from the spec: the request helper behind \<open>httpGet\<close> of package toggl, which
  is not among the sources. By the spec it attaches the basic-auth credentials, sends
  the request with the caller's context, and branches on the status code: 2xx decodes
  the body into the output argument, anything else decodes the body into the error
  structure and returns it; a nil context is a reported error and no request is sent;
  a transport failure is returned as it is. The client is the spec's (base URL, token,
  headers, transport), the record of package reports; the spec says nothing of a
  client whose URL or transport is nil, where a call would dereference a nil pointer.
  How a non-2xx response becomes the error structure is the parameter \<open>errorOf\<close>,
  and the encoding of the query parameters the parameter \<open>encode\<close>.
\<close>

definition httpGet_spec ::
  "(Values option \<Rightarrow> string) \<Rightarrow> 'a decoder \<Rightarrow> (Response \<Rightarrow> error)
   \<Rightarrow> Client \<Rightarrow> Context option \<Rightarrow> string \<Rightarrow> Values option \<Rightarrow> 'a \<Rightarrow> 'a outcome result" where
  "httpGet_spec encode dec errorOf c ctx apiSpecificPath params outp =
     (case ctx of
        None \<Rightarrow> Return \<lparr>err = Some (ErrorString ''context required''), out = outp, sent = []\<rparr>
      | Some cx \<Rightarrow>
          (case (url c, httpClient c) of
             (Some u, Some hc) \<Rightarrow>
               (let req = \<lparr>Method = ''GET'',
                           ReqURL = u\<lparr>Path := apiSpecificPath, RawQuery := encode params\<rparr>,
                           BasicAuth = Some (apiToken c, basicAuthPassword),
                           Ctx = cx\<rparr>
                in case hc req of
                     Inl e \<Rightarrow> Return \<lparr>err = Some e, out = outp, sent = [req]\<rparr>
                   | Inr resp \<Rightarrow>
                       (if 200 \<le> Status resp \<and> Status resp \<le> 299 then
                          (case dec (Body resp) outp of
                             (e, outp') \<Rightarrow>
                               Return \<lparr>err = map_option JSONError e, out = outp', sent = [req]\<rparr>)
                        else Return \<lparr>err = Some (errorOf resp), out = outp, sent = [req]\<rparr>))
           | _ \<Rightarrow> Panic))"

section \<open>The structure of the tests, and values for examples\<close>

text \<open>The \<open>detailedReport\<close> that the tests of package reports decode into.\<close>

record detailedReport_Data =
  Data_User :: string
  Data_Project :: string
  Data_Description :: string

record detailedReport =
  TotalCount :: int
  PerPage :: int
  Data :: "detailedReport_Data list option"

definition zero_Data :: detailedReport_Data where
  "zero_Data = \<lparr>Data_User = '''', Data_Project = '''', Data_Description = ''''\<rparr>"

definition new_detailedReport :: detailedReport where
  "new_detailedReport = \<lparr>TotalCount = 0, PerPage = 0, Data = None\<rparr>"

definition Data_field ::
  "string \<Rightarrow> json \<Rightarrow> detailedReport_Data \<Rightarrow> stored \<times> detailedReport_Data" where
  "Data_field key v d =
     (if is_field ''user'' key then
        (case store_string ''Data.User'' v (Data_User d) of (st, x) \<Rightarrow> (st, d\<lparr>Data_User := x\<rparr>))
      else if is_field ''project'' key then
        (case store_string ''Data.Project'' v (Data_Project d) of
           (st, x) \<Rightarrow> (st, d\<lparr>Data_Project := x\<rparr>))
      else if is_field ''description'' key then
        (case store_string ''Data.Description'' v (Data_Description d) of
           (st, x) \<Rightarrow> (st, d\<lparr>Data_Description := x\<rparr>))
      else (Clean, d))"

definition detailedReport_field ::
  "string \<Rightarrow> json \<Rightarrow> detailedReport \<Rightarrow> stored \<times> detailedReport" where
  "detailedReport_field key v r =
     (if is_field ''total_count'' key then
        (case store_int ''TotalCount'' v (TotalCount r) of (st, x) \<Rightarrow> (st, r\<lparr>TotalCount := x\<rparr>))
      else if is_field ''per_page'' key then
        (case store_int ''PerPage'' v (PerPage r) of (st, x) \<Rightarrow> (st, r\<lparr>PerPage := x\<rparr>))
      else if is_field ''data'' key then
        (case store_slice (store_struct Data_field ''Data'') zero_Data ''Data'' v (Data r) of
           (st, x) \<Rightarrow> (st, r\<lparr>Data := x\<rparr>))
      else (Clean, r))"

definition decode_detailedReport :: "detailedReport decoder" where
  "decode_detailedReport = Decode (store_struct detailedReport_field '''')"

text \<open>
  The mock server of the tests answers every request with the given status and body.
\<close>

definition mockServer :: "int \<Rightarrow> body \<Rightarrow> http_Client" where
  "mockServer status b = (\<lambda>req. Inr \<lparr>Status = status, Body = b\<rparr>)"

text \<open>
  A library instance for the examples. Its \<open>Parse\<close> covers the inputs the examples
  use: like \<open>url.Parse\<close> it refuses a string with an ASCII control character and a
  string that begins with a colon (no scheme before it), and it splits
  \<open>scheme://host/path?query\<close> into its parts. Its default client has no network.
\<close>

definition is_CTL :: "char \<Rightarrow> bool" where
  "is_CTL c = ((of_char c :: nat) < 32 \<or> (of_char c :: nat) = 127)"

definition split_URL :: "string \<Rightarrow> URL" where
  "split_URL s =
     (let scheme = takeWhile (\<lambda>c. c \<noteq> CHR '':'') s;
          rest = drop (length scheme + 3) s;
          host = takeWhile (\<lambda>c. c \<noteq> CHR ''/'' \<and> c \<noteq> CHR ''?'') rest;
          tail = drop (length host) rest
      in \<lparr>Scheme = scheme, Host = host,
          Path = takeWhile (\<lambda>c. c \<noteq> CHR ''?'') tail,
          RawQuery = drop 1 (dropWhile (\<lambda>c. c \<noteq> CHR ''?'') tail)\<rparr>)"

definition example_Parse :: "string \<Rightarrow> error + URL" where
  "example_Parse s =
     (if list_ex is_CTL s then Inl (URLError ''net/url: invalid control character in URL'')
      else if take 1 s = '':'' then Inl (URLError ''missing protocol scheme'')
      else Inr (split_URL s))"

definition example_String :: "URL \<Rightarrow> string" where
  "example_String u =
     Scheme u @ ''://'' @ Host u @ Path u @ (if RawQuery u = [] then [] else ''?'' @ RawQuery u)"

definition example_Join :: "string list \<Rightarrow> string" where
  "example_Join elems = foldr (\<lambda>e acc. if acc = [] then e else e @ ''/'' @ acc) elems []"

definition example_time :: Time where
  "example_time = \<lparr>sec = 63713531045, nsec = 678901000, loc = ''UTC''\<rparr>"

definition example_ParseTime :: "string \<Rightarrow> Time option" where
  "example_ParseTime s = (if s = ''2020-01-02T03:04:05.678901Z'' then Some example_time else None)"

definition std :: lib where
  "std = \<lparr>Parse = example_Parse, String = example_String,
          CanonicalMIMEHeaderKey = (\<lambda>key. key),
          DefaultClient = (\<lambda>req. Inl (TransportError ''no network'')),
          Join = example_Join, ParseTime = example_ParseTime\<rparr>"

definition example_URL :: string where
  "example_URL = ''https://toggl.com/reports/api/v2/details?user_agent=u&workspace_id=1''"

definition example_request :: Request where
  "example_request =
     \<lparr>Method = ''GET'',
      ReqURL = \<lparr>Scheme = ''https'', Host = ''toggl.com'', Path = ''/reports/api/v2/details'',
                RawQuery = ''user_agent=u&workspace_id=1''\<rparr>,
      BasicAuth = Some (''token'', ''api_token''), Ctx = Background\<rparr>"

text \<open>
  Modelled from the spec: the fixture \<open>get_tags_200_ok.json\<close>, which is not among
  the sources. The spec names the tag it holds (ID 12345678, name toggl-go); the test
  \<open>TestGetTags\<close> expects from it the workspace 1234567 and the time
  2020-01-02 03:04:05.678901 UTC as well, and no \<open>deleted_at\<close>.
\<close>

definition get_tags_200_ok :: body where
  "get_tags_200_ok =
     JSON (JArray [JObject [(''id'', JNumber 12345678), (''workspace_id'', JNumber 1234567),
                            (''name'', JString ''toggl-go''),
                            (''at'', JString ''2020-01-02T03:04:05.678901Z'')]])"

definition mockClient :: "int \<Rightarrow> body \<Rightarrow> Client" where
  "mockClient status b = NewClient std ''token'' [HTTPClient (Some (mockServer status b))]"

text \<open>
  Bodies for the examples: a page that is not JSON (as the HTML page of a 429), the
  error body the test expects for a 401, a JSON body of another shape, a report, and a
  report whose \<open>per_page\<close> is a string.
\<close>

definition html_page :: body where
  "html_page = NoJSON (SyntaxError ''invalid character looking for beginning of value'')"

definition unauthorized_body :: body where
  "unauthorized_body =
     JSON (JObject [(''error'', JObject [(''message'', JString ''api token missing''),
       (''tip'', JString ''You can find your API Token in your profile at https://www.toggl.com''),
       (''code'', JNumber 401)])])"

definition bad_gateway_body :: body where
  "bad_gateway_body = JSON (JObject [(''message'', JString ''Bad Gateway'')])"

definition detailed_body :: body where
  "detailed_body =
     JSON (JObject [(''total_count'', JNumber 1), (''per_page'', JNumber 50),
       (''data'', JArray [JObject [(''user'', JString ''u''), (''project'', JString ''p''),
                                   (''description'', JString ''d'')]])])"

definition mistyped_body :: body where
  "mistyped_body = JSON (JObject [(''total_count'', JNumber 5), (''per_page'', JString ''x'')])"

text \<open>
  For the examples of package toggl: no query parameters are encoded to the empty
  string, and a response outside 2xx becomes the error structure of package reports
  (or the error of decoding into it).
\<close>

definition example_encode :: "Values option \<Rightarrow> string" where
  "example_encode params = []"

definition example_errorOf :: "Response \<Rightarrow> error" where
  "example_errorOf resp =
     (case decode_ReportsError (Body resp) new_ReportsError of
        (Some j, e) \<Rightarrow> JSONError j
      | (None, e) \<Rightarrow> ReportsErr e)"

definition example_workspacesPath :: string where
  "example_workspacesPath = ''api/v9/workspaces''"

definition tags_request :: Request where
  "tags_request =
     \<lparr>Method = ''GET'',
      ReqURL = \<lparr>Scheme = ''https'', Host = ''toggl.com'',
                Path = ''api/v9/workspaces/1234567/tags'', RawQuery = []\<rparr>,
      BasicAuth = Some (''token'', ''api_token''), Ctx = Background\<rparr>"

definition toggl_go_tag :: Tag where
  "toggl_go_tag = \<lparr>ID = Some 12345678, WorkspaceID = Some 1234567, Name = Some ''toggl-go'',
                    At = Some example_time, DeletedAt = None\<rparr>"

definition bad_request_body :: body where
  "bad_request_body = JSON (JString ''Missing or invalid workspace_id'')"

section \<open>Properties of the parameter encoder\<close>

lemma dom_Add: "dom (Add key val v) = insert key (dom v)"
  by (simp add: Add_def)

lemma dom_guarded_Add: "dom (guarded b (Add key val) v) = dom v \<union> {k. k = key \<and> b}"
  by (auto simp: guarded_def dom_Add)

lemma dom_values:
  "dom (values Format p) =
     {''user_agent'', ''workspace_id''}
     \<union> {k. k = ''since'' \<and> \<not> IsZero (Since p)}
     \<union> {k. k = ''until'' \<and> \<not> IsZero (Until p)}
     \<union> {k. k = ''billable'' \<and> Billable p \<noteq> []}
     \<union> {k. k = ''client_ids'' \<and> ClientIds p \<noteq> []}
     \<union> {k. k = ''project_ids'' \<and> ProjectIds p \<noteq> []}
     \<union> {k. k = ''user_ids'' \<and> UserIds p \<noteq> []}
     \<union> {k. k = ''members_of_group_ids'' \<and> MembersOfGroupIds p \<noteq> []}
     \<union> {k. k = ''or_members_of_group_ids'' \<and> OrMembersOfGroupIds p \<noteq> []}
     \<union> {k. k = ''tag_ids'' \<and> TagIds p \<noteq> []}
     \<union> {k. k = ''task_ids'' \<and> TaskIds p \<noteq> []}
     \<union> {k. k = ''time_entry_ids'' \<and> TimeEntryIds p \<noteq> []}
     \<union> {k. k = ''description'' \<and> Description p \<noteq> []}
     \<union> {k. k = ''without_description'' \<and> WithoutDescription p}
     \<union> {k. k = ''order_field'' \<and> OrderField p \<noteq> []}
     \<union> {k. k = ''order_desc'' \<and> OrderDesc p}
     \<union> {k. k = ''distinct_rates'' \<and> DistinctRates p}
     \<union> {k. k = ''rounding'' \<and> Rounding p}
     \<union> {k. k = ''display_hours'' \<and> DisplayHours p \<noteq> []}"
  unfolding values_def block_def fold_simps
  by (simp only: o_apply dom_guarded_Add dom_Add dom_empty) (simp add: insert_commute Un_commute)

text \<open>
  C1, as the encoder has it: \<open>user_agent\<close> and \<open>workspace_id\<close> are added
  unconditionally (the source comments them as required), so their keys are present
  whatever the fields hold. Each of the other eighteen keys is present exactly when its
  field is not the zero value: a string field when it is not empty, a time field when it
  is not the zero time, a boolean field when it is true. No other key is ever present.
\<close>

theorem values_keys:
  "''user_agent'' \<in> dom (values Format p) \<and>
   ''workspace_id'' \<in> dom (values Format p) \<and>
   (''since'' \<in> dom (values Format p)) = (\<not> IsZero (Since p)) \<and>
   (''until'' \<in> dom (values Format p)) = (\<not> IsZero (Until p)) \<and>
   (''billable'' \<in> dom (values Format p)) = (Billable p \<noteq> []) \<and>
   (''client_ids'' \<in> dom (values Format p)) = (ClientIds p \<noteq> []) \<and>
   (''project_ids'' \<in> dom (values Format p)) = (ProjectIds p \<noteq> []) \<and>
   (''user_ids'' \<in> dom (values Format p)) = (UserIds p \<noteq> []) \<and>
   (''members_of_group_ids'' \<in> dom (values Format p)) = (MembersOfGroupIds p \<noteq> []) \<and>
   (''or_members_of_group_ids'' \<in> dom (values Format p)) = (OrMembersOfGroupIds p \<noteq> []) \<and>
   (''tag_ids'' \<in> dom (values Format p)) = (TagIds p \<noteq> []) \<and>
   (''task_ids'' \<in> dom (values Format p)) = (TaskIds p \<noteq> []) \<and>
   (''time_entry_ids'' \<in> dom (values Format p)) = (TimeEntryIds p \<noteq> []) \<and>
   (''description'' \<in> dom (values Format p)) = (Description p \<noteq> []) \<and>
   (''without_description'' \<in> dom (values Format p)) = WithoutDescription p \<and>
   (''order_field'' \<in> dom (values Format p)) = (OrderField p \<noteq> []) \<and>
   (''order_desc'' \<in> dom (values Format p)) = OrderDesc p \<and>
   (''distinct_rates'' \<in> dom (values Format p)) = DistinctRates p \<and>
   (''rounding'' \<in> dom (values Format p)) = Rounding p \<and>
   (''display_hours'' \<in> dom (values Format p)) = (DisplayHours p \<noteq> []) \<and>
   dom (values Format p) \<subseteq> {''user_agent'', ''workspace_id'', ''since'', ''until'', ''billable'',
     ''client_ids'', ''project_ids'', ''user_ids'', ''members_of_group_ids'',
     ''or_members_of_group_ids'', ''tag_ids'', ''task_ids'', ''time_entry_ids'', ''description'',
     ''without_description'', ''order_field'', ''order_desc'', ''distinct_rates'', ''rounding'',
     ''display_hours''}"
  unfolding dom_values by (simp add: subset_iff)

text \<open>
  C1 as stated fails for the two required fields: with every field at its zero value the
  field \<open>UserAgent\<close> is empty and the key \<open>user_agent\<close> is in the encoded
  values all the same.
\<close>

theorem values_required_key_counterexample:
  "\<not> ((''user_agent'' \<in> dom (values no_Format zero_params)) = (UserAgent zero_params \<noteq> []))"
  unfolding dom_values by (simp add: zero_params_def)

section \<open>Properties of the reports pipeline\<close>

subsection \<open>The example values\<close>

lemma Parse_example_URL: "Parse std example_URL = Inr (ReqURL example_request)"
  by (simp add: std_def example_Parse_def split_URL_def is_CTL_def example_URL_def
      example_request_def)

lemma Parse_defaultBaseURL:
  "Parse std defaultBaseURL = Inr \<lparr>Scheme = ''https'', Host = ''toggl.com'', Path = [], RawQuery = []\<rparr>"
  by (simp add: std_def example_Parse_def split_URL_def is_CTL_def defaultBaseURL_def)

lemma mockClient_httpClient: "httpClient (mockClient status b) = Some (mockServer status b)"
  by (simp add: mockClient_def NewClient_def HTTPClient_def)

lemma mockClient_apiToken: "apiToken (mockClient status b) = ''token''"
  by (simp add: mockClient_def NewClient_def HTTPClient_def)

lemma mockServer_answer: "mockServer status b req = Inr \<lparr>Status = status, Body = b\<rparr>"
  by (simp add: mockServer_def)

subsection \<open>What \<open>get\<close> does, path by path\<close>

lemma get_nil_ctx:
  "get L dec c None rawurl report =
     Return \<lparr>err = Some (case Parse L rawurl of
                            Inl e \<Rightarrow> e
                          | Inr u \<Rightarrow> ErrorString ''The provided ctx must be non-nil''),
             out = report, sent = []\<rparr>"
  by (simp add: get_def NewRequest_def split: sum.splits)

lemma get_received:
  assumes "Parse L rawurl = Inr u"
    and "httpClient c = Some hc"
    and "req = \<lparr>Method = ''GET'', ReqURL = u, BasicAuth = Some (apiToken c, basicAuthPassword),
                 Ctx = cx\<rparr>"
    and "hc req = Inr resp"
  shows "get L dec c (Some cx) rawurl report =
     Return (if Status resp \<le> 199 \<or> 300 \<le> Status resp
             then \<lparr>err = Some (case decode_ReportsError (Body resp) new_ReportsError of
                                 (Some j, e) \<Rightarrow> JSONError j
                               | (None, e) \<Rightarrow> ReportsErr e),
                   out = report, sent = [req]\<rparr>
             else \<lparr>err = map_option JSONError (fst (dec (Body resp) report)),
                   out = snd (dec (Body resp) report), sent = [req]\<rparr>)"
  using assms
  by (auto simp: get_def NewRequest_def SetBasicAuth_def WithContext_def checkResponse_def Let_def
      decodeJSON_def split: prod.splits option.splits)

lemma get_error_cases:
  assumes "get L dec c ctx rawurl report = Return r" and "err r = Some e"
  shows "out r = report \<or>
         (\<exists>req hc resp j. sent r = [req] \<and> httpClient c = Some hc \<and> hc req = Inr resp \<and>
            200 \<le> Status resp \<and> Status resp \<le> 299 \<and>
            dec (Body resp) report = (Some j, out r) \<and> e = JSONError j)"
  using assms
  by (auto simp: get_def NewRequest_def SetBasicAuth_def WithContext_def checkResponse_def Let_def
      decodeJSON_def split: sum.splits option.splits prod.splits if_splits)

lemma get_example:
  "get std dec (mockClient status b) (Some Background) example_URL report =
     Return (if status \<le> 199 \<or> 300 \<le> status
             then \<lparr>err = Some (case decode_ReportsError b new_ReportsError of
                                 (Some j, e) \<Rightarrow> JSONError j
                               | (None, e) \<Rightarrow> ReportsErr e),
                   out = report, sent = [example_request]\<rparr>
             else \<lparr>err = map_option JSONError (fst (dec b report)),
                   out = snd (dec b report), sent = [example_request]\<rparr>)"
  using get_received [where dec = dec and report = report,
      OF Parse_example_URL mockClient_httpClient _ mockServer_answer,
      of example_request status b]
  by (simp add: example_request_def mockClient_apiToken basicAuthPassword_def)

subsection \<open>The decoders on the example bodies\<close>

lemmas store_defs = Decode_def store_struct_def store_string_def store_int_def store_slice_def
  store_ptr_def is_field_def fold_ascii_def

lemma decode_html_page:
  "decode_detailedReport html_page r =
     (Some (SyntaxError ''invalid character looking for beginning of value''), r)"
  "decode_ReportsError html_page e =
     (Some (SyntaxError ''invalid character looking for beginning of value''), e)"
  by (simp_all add: decode_detailedReport_def decode_ReportsError_def Decode_def html_page_def)

lemma decode_unauthorized_body:
  "decode_ReportsError unauthorized_body new_ReportsError =
     (None, \<lparr>Err = \<lparr>Message = ''api token missing'',
        Tip = ''You can find your API Token in your profile at https://www.toggl.com'',
        StatusCode = 401\<rparr>\<rparr>)"
  by (simp add: decode_ReportsError_def unauthorized_body_def new_ReportsError_def store_defs
      ReportsError_field_def Err_field_def)

lemma decode_bad_gateway_body:
  "decode_ReportsError bad_gateway_body new_ReportsError = (None, new_ReportsError)"
  by (simp add: decode_ReportsError_def bad_gateway_body_def new_ReportsError_def store_defs
      ReportsError_field_def Err_field_def)

lemma decode_detailed_body:
  "decode_detailedReport detailed_body new_detailedReport =
     (None, \<lparr>TotalCount = 1, PerPage = 50,
        Data = Some [\<lparr>Data_User = ''u'', Data_Project = ''p'', Data_Description = ''d''\<rparr>]\<rparr>)"
  by (simp add: decode_detailedReport_def detailed_body_def new_detailedReport_def store_defs
      detailedReport_field_def Data_field_def zero_Data_def)

lemma decode_mistyped_body:
  "decode_detailedReport mistyped_body new_detailedReport =
     (Some (UnmarshalTypeError ''string'' ''PerPage''), \<lparr>TotalCount = 5, PerPage = 0, Data = None\<rparr>)"
  by (simp add: decode_detailedReport_def mistyped_body_def new_detailedReport_def store_defs
      detailedReport_field_def)

subsection \<open>The claims about \<open>get\<close>\<close>

lemma example_request_built:
  "example_request = \<lparr>Method = ''GET'', ReqURL = ReqURL example_request,
      BasicAuth = Some (apiToken (mockClient status b), basicAuthPassword), Ctx = Background\<rparr>"
  by (simp add: example_request_def mockClient_apiToken basicAuthPassword_def)

text \<open>
  C2, as the pipeline has it. Let the URL parse, the context be non-nil and the client's
  transport answer the request of \<open>get\<close> with a response. When the status is in
  200..299, \<open>get\<close> decodes the body into the caller's output, and the error it
  returns is nil exactly when that decoding succeeds (otherwise it is the decoder's
  error). When the status is outside 200..299 and the body decodes into the error
  structure, \<open>get\<close> leaves the caller's output alone and returns the decoded
  \<open>ReportsError\<close>.
\<close>

theorem get_decodes_by_status:
  assumes "Parse L rawurl = Inr u"
    and "httpClient c = Some hc"
    and "req = \<lparr>Method = ''GET'', ReqURL = u, BasicAuth = Some (apiToken c, basicAuthPassword),
                 Ctx = cx\<rparr>"
    and "hc req = Inr resp"
  shows "(200 \<le> Status resp \<and> Status resp \<le> 299 \<longrightarrow>
            get L dec c (Some cx) rawurl report =
              Return \<lparr>err = map_option JSONError (fst (dec (Body resp) report)),
                      out = snd (dec (Body resp) report), sent = [req]\<rparr>) \<and>
         ((Status resp \<le> 199 \<or> 300 \<le> Status resp) \<and>
          fst (decode_ReportsError (Body resp) new_ReportsError) = None \<longrightarrow>
            get L dec c (Some cx) rawurl report =
              Return \<lparr>err = Some (ReportsErr (snd (decode_ReportsError (Body resp) new_ReportsError))),
                      out = report, sent = [req]\<rparr>)"
  using get_received [where dec = dec and report = report, OF assms]
  by (auto split: prod.splits)

theorem get_decodes_by_status_witness:
  "get std decode_detailedReport (mockClient 200 detailed_body) (Some Background) example_URL
     new_detailedReport =
     Return \<lparr>err = None,
             out = \<lparr>TotalCount = 1, PerPage = 50,
                     Data = Some [\<lparr>Data_User = ''u'', Data_Project = ''p'',
                                    Data_Description = ''d''\<rparr>]\<rparr>,
             sent = [example_request]\<rparr> \<and>
   get std decode_detailedReport (mockClient 401 unauthorized_body) (Some Background) example_URL
     new_detailedReport =
     Return \<lparr>err = Some (ReportsErr \<lparr>Err = \<lparr>Message = ''api token missing'',
                    Tip = ''You can find your API Token in your profile at https://www.toggl.com'',
                    StatusCode = 401\<rparr>\<rparr>),
             out = new_detailedReport,
             sent = [example_request]\<rparr>"
proof -
  from get_decodes_by_status [where dec = decode_detailedReport and report = new_detailedReport,
      OF Parse_example_URL mockClient_httpClient example_request_built mockServer_answer,
      of 200 detailed_body]
  have ok: "get std decode_detailedReport (mockClient 200 detailed_body) (Some Background)
      example_URL new_detailedReport =
    Return \<lparr>err = None,
            out = \<lparr>TotalCount = 1, PerPage = 50,
                    Data = Some [\<lparr>Data_User = ''u'', Data_Project = ''p'',
                                   Data_Description = ''d''\<rparr>]\<rparr>,
            sent = [example_request]\<rparr>"
    by (simp add: decode_detailed_body)
  from get_decodes_by_status [where dec = decode_detailedReport and report = new_detailedReport,
      OF Parse_example_URL mockClient_httpClient example_request_built mockServer_answer,
      of 401 unauthorized_body]
  have "get std decode_detailedReport (mockClient 401 unauthorized_body) (Some Background)
      example_URL new_detailedReport =
    Return \<lparr>err = Some (ReportsErr \<lparr>Err = \<lparr>Message = ''api token missing'',
                    Tip = ''You can find your API Token in your profile at https://www.toggl.com'',
                    StatusCode = 401\<rparr>\<rparr>),
            out = new_detailedReport, sent = [example_request]\<rparr>"
    by (simp add: decode_unauthorized_body)
  with ok show ?thesis by simp
qed

text \<open>
  C2 as stated fails on a 2xx response whose body does not decode: a 200 with a body
  that is not JSON returns the decoder's error, not nil.
\<close>

theorem get_2xx_undecodable_counterexample:
  "get std decode_detailedReport (mockClient 200 html_page) (Some Background) example_URL
     new_detailedReport =
     Return \<lparr>err = Some (JSONError (SyntaxError
                 ''invalid character looking for beginning of value'')),
             out = new_detailedReport, sent = [example_request]\<rparr>"
  by (simp add: get_example decode_html_page)

text \<open>
  C3, as the pipeline has it. Let the transport answer the request of \<open>get\<close> with a
  response outside 200..299. The typed error returned is the error structure decoded
  from the body and nothing else: whenever \<open>get\<close> returns a \<open>ReportsError\<close> it is
  the decoding of the body, and for a body
  \<open>{"error": {"message": m, "tip": t, "code": n}}\<close> (with \<open>n\<close> in the range of
  \<open>int\<close>) \<open>get\<close> returns the \<open>ReportsError\<close> with message \<open>m\<close>, tip \<open>t\<close>
  and status code field \<open>n\<close>, whatever the HTTP status of the response is.
\<close>

theorem ReportsError_is_decoded_body:
  assumes "Parse L rawurl = Inr u"
    and "httpClient c = Some hc"
    and "req = \<lparr>Method = ''GET'', ReqURL = u, BasicAuth = Some (apiToken c, basicAuthPassword),
                 Ctx = cx\<rparr>"
    and "hc req = Inr resp"
    and "Status resp \<le> 199 \<or> 300 \<le> Status resp"
  shows "(\<forall>r e. get L dec c (Some cx) rawurl report = Return r \<and> err r = Some (ReportsErr e) \<longrightarrow>
            e = snd (decode_ReportsError (Body resp) new_ReportsError)) \<and>
         (Body resp = JSON (JObject [(''error'', JObject [(''message'', JString m),
             (''tip'', JString t), (''code'', JNumber n)])]) \<and> - (2 ^ 63) \<le> n \<and> n < 2 ^ 63 \<longrightarrow>
            get L dec c (Some cx) rawurl report =
              Return \<lparr>err = Some (ReportsErr \<lparr>Err = \<lparr>Message = m, Tip = t, StatusCode = n\<rparr>\<rparr>),
                      out = report, sent = [req]\<rparr>)"
proof -
  have shape: "decode_ReportsError (JSON (JObject [(''error'', JObject [(''message'', JString m),
             (''tip'', JString t), (''code'', JNumber n)])])) new_ReportsError =
          (None, \<lparr>Err = \<lparr>Message = m, Tip = t, StatusCode = n\<rparr>\<rparr>)"
    if "- (2 ^ 63) \<le> n" and "n < 2 ^ 63"
    using that
    by (simp add: decode_ReportsError_def new_ReportsError_def store_defs
        ReportsError_field_def Err_field_def)
  from get_received [where dec = dec and report = report, OF assms(1-4)] assms(5) shape
  show ?thesis
    by (auto split: prod.splits option.splits)
qed

theorem ReportsError_is_decoded_body_witness:
  "get std decode_detailedReport (mockClient 401 unauthorized_body) (Some Background) example_URL
     new_detailedReport =
     Return \<lparr>err = Some (ReportsErr \<lparr>Err = \<lparr>Message = ''api token missing'',
                    Tip = ''You can find your API Token in your profile at https://www.toggl.com'',
                    StatusCode = 401\<rparr>\<rparr>),
             out = new_detailedReport,
             sent = [example_request]\<rparr>"
proof -
  have st: "Status \<lparr>Status = 401, Body = unauthorized_body\<rparr> \<le> 199 \<or>
            300 \<le> Status \<lparr>Status = 401, Body = unauthorized_body\<rparr>"
    by simp
  from ReportsError_is_decoded_body [where dec = decode_detailedReport
      and report = new_detailedReport and m = "''api token missing''" and n = 401
      and t = "''You can find your API Token in your profile at https://www.toggl.com''",
      OF Parse_example_URL mockClient_httpClient example_request_built mockServer_answer st]
  show ?thesis
    by (simp add: unauthorized_body_def)
qed

text \<open>
  C3 as stated fails: the status code field is never taken from the HTTP status. A 502
  whose JSON body has no \<open>error\<close> member decodes into the zero error structure, so
  the typed error returned carries status code 0; and a 500 whose body says
  \<open>"code": 401\<close> returns a typed error with status code 401.
\<close>

theorem ReportsError_status_counterexample:
  "get std decode_detailedReport (mockClient 502 bad_gateway_body) (Some Background) example_URL
     new_detailedReport =
     Return \<lparr>err = Some (ReportsErr \<lparr>Err = \<lparr>Message = [], Tip = [], StatusCode = 0\<rparr>\<rparr>),
             out = new_detailedReport, sent = [example_request]\<rparr> \<and>
   get std decode_detailedReport (mockClient 500 unauthorized_body) (Some Background) example_URL
     new_detailedReport =
     Return \<lparr>err = Some (ReportsErr \<lparr>Err = \<lparr>Message = ''api token missing'',
                    Tip = ''You can find your API Token in your profile at https://www.toggl.com'',
                    StatusCode = 401\<rparr>\<rparr>),
             out = new_detailedReport, sent = [example_request]\<rparr>"
  unfolding get_example decode_bad_gateway_body decode_unauthorized_body
  by (simp add: new_ReportsError_def)

text \<open>
  C4. The URL that \<open>get\<close> is given is the one \<open>buildURL\<close> made, which
  \<open>http.NewRequest\<close> parses. For every such call with a nil context, \<open>get\<close>
  returns the error "The provided ctx must be non-nil": it does not panic (whatever the
  client's transport is, nil included), it leaves the output alone, and it hands no
  request to the HTTP client. The last three hold for any URL at all.
\<close>

theorem get_nil_context:
  assumes "Parse L rawurl = Inr u"
  shows "get L dec c None rawurl report =
           Return \<lparr>err = Some (ErrorString ''The provided ctx must be non-nil''),
                   out = report, sent = []\<rparr> \<and>
         (\<exists>e. get L dec c None rawurl' report = Return \<lparr>err = Some e, out = report, sent = []\<rparr>)"
  using assms by (simp add: get_nil_ctx)

theorem get_nil_context_witness:
  "Parse std example_URL = Inr (ReqURL example_request) \<and>
   get std decode_detailedReport (mockClient 200 detailed_body) None example_URL
     new_detailedReport =
     Return \<lparr>err = Some (ErrorString ''The provided ctx must be non-nil''),
             out = new_detailedReport, sent = []\<rparr> \<and>
   get std decode_detailedReport ((mockClient 200 detailed_body)\<lparr>httpClient := None\<rparr>) None
     example_URL new_detailedReport =
     Return \<lparr>err = Some (ErrorString ''The provided ctx must be non-nil''),
             out = new_detailedReport, sent = []\<rparr>"
  using get_nil_context [OF Parse_example_URL, of decode_detailedReport
      "mockClient 200 detailed_body" new_detailedReport]
    get_nil_context [OF Parse_example_URL, of decode_detailedReport
      "(mockClient 200 detailed_body)\<lparr>httpClient := None\<rparr>" new_detailedReport]
    Parse_example_URL
  by simp

text \<open>
  C10. Let the transport answer the request of \<open>get\<close> with a response outside
  200..299. When decoding the body into the error structure fails, \<open>get\<close> returns
  that JSON decoding error (and leaves the output alone); it returns a
  \<open>ReportsError\<close> only when the decoding of the body succeeded, and then the decoded
  one.
\<close>

theorem get_undecodable_error_body:
  assumes "Parse L rawurl = Inr u"
    and "httpClient c = Some hc"
    and "req = \<lparr>Method = ''GET'', ReqURL = u, BasicAuth = Some (apiToken c, basicAuthPassword),
                 Ctx = cx\<rparr>"
    and "hc req = Inr resp"
    and "Status resp \<le> 199 \<or> 300 \<le> Status resp"
  shows "(\<forall>j. fst (decode_ReportsError (Body resp) new_ReportsError) = Some j \<longrightarrow>
            get L dec c (Some cx) rawurl report =
              Return \<lparr>err = Some (JSONError j), out = report, sent = [req]\<rparr>) \<and>
         (\<forall>r e. get L dec c (Some cx) rawurl report = Return r \<and> err r = Some (ReportsErr e) \<longrightarrow>
            decode_ReportsError (Body resp) new_ReportsError = (None, e))"
  using get_received [where dec = dec and report = report, OF assms(1-4)] assms(5)
  by (auto split: prod.splits option.splits)

theorem get_undecodable_error_body_witness:
  "get std decode_detailedReport (mockClient 429 html_page) (Some Background) example_URL
     new_detailedReport =
     Return \<lparr>err = Some (JSONError (SyntaxError
                 ''invalid character looking for beginning of value'')),
             out = new_detailedReport, sent = [example_request]\<rparr>"
proof -
  have st: "Status \<lparr>Status = 429, Body = html_page\<rparr> \<le> 199 \<or>
            300 \<le> Status \<lparr>Status = 429, Body = html_page\<rparr>"
    by simp
  from get_undecodable_error_body [where dec = decode_detailedReport
      and report = new_detailedReport,
      OF Parse_example_URL mockClient_httpClient example_request_built mockServer_answer st]
  show ?thesis
    by (simp add: decode_html_page)
qed

section \<open>Properties of the client\<close>

lemma NewClient_Nil:
  "NewClient L token [] =
     \<lparr>httpClient = Some (DefaultClient L), apiToken = token,
      header = [CanonicalMIMEHeaderKey L ''Content-type'' \<mapsto> [''application/json'']],
      url = Parse_drop_error L defaultBaseURL\<rparr>"
  by (simp add: NewClient_def Header_Set_def)

lemma NewClient_snoc:
  "NewClient L token (options @ [option]) = option (NewClient L token options)"
  by (simp add: NewClient_def Let_def)

text \<open>
  C8. \<open>NewClient\<close> with a token and no option returns a client with that token,
  with the URL parsed from \<open>https://toggl.com\<close>, with the header \<open>Content-type\<close>
  set to \<open>application/json\<close>, and with the default HTTP client. An option
  \<open>baseURL\<close> or \<open>HTTPClient\<close>, wherever it stands last among the options, changes
  its own field of the client and no other.
\<close>

theorem NewClient_configuration:
  "apiToken (NewClient L token []) = token \<and>
   url (NewClient L token []) =
     (case Parse L ''https://toggl.com'' of Inl e \<Rightarrow> None | Inr u \<Rightarrow> Some u) \<and>
   Header_Get L ''Content-type'' (header (NewClient L token [])) = ''application/json'' \<and>
   httpClient (NewClient L token []) = Some (DefaultClient L) \<and>
   NewClient L token (options @ [baseURL L rawurl]) =
     (NewClient L token options)\<lparr>url := (case Parse L rawurl of Inl e \<Rightarrow> None | Inr u \<Rightarrow> Some u)\<rparr> \<and>
   NewClient L token (options @ [HTTPClient hc]) =
     (NewClient L token options)\<lparr>httpClient := hc\<rparr>"
  by (simp add: NewClient_snoc NewClient_Nil baseURL_def HTTPClient_def Parse_drop_error_def
      defaultBaseURL_def Header_Get_def)




section \<open>Properties of the tag methods\<close>

lemma Itoa_example: "Itoa 1234567 = ''1234567''"
  by (simp add: Itoa_def)

lemma Join_example:
  "Join std [example_workspacesPath, Itoa 1234567, ''tags''] = ''api/v9/workspaces/1234567/tags''"
  by (simp add: Itoa_example std_def example_Join_def example_workspacesPath_def)

lemma GetTags_error_nil:
  assumes "GetTags L workspacesPath httpGet c ctx workspaceID = Return r" and "err r \<noteq> None"
  shows "out r = None"
  using assms
  by (auto simp: GetTags_def Let_def split: result.splits option.splits)

lemma httpGet_spec_answered:
  assumes "url c = Some u" and "httpClient c = Some hc"
    and "req = \<lparr>Method = ''GET'',
                 ReqURL = u\<lparr>Path := apiSpecificPath, RawQuery := encode params\<rparr>,
                 BasicAuth = Some (apiToken c, basicAuthPassword), Ctx = cx\<rparr>"
    and "hc req = Inr resp"
  shows "httpGet_spec encode dec errorOf c (Some cx) apiSpecificPath params outp =
     Return (if 200 \<le> Status resp \<and> Status resp \<le> 299
             then \<lparr>err = map_option JSONError (fst (dec (Body resp) outp)),
                   out = snd (dec (Body resp) outp), sent = [req]\<rparr>
             else \<lparr>err = Some (errorOf resp), out = outp, sent = [req]\<rparr>)"
  using assms
  by (auto simp: httpGet_spec_def Let_def split: prod.splits)

lemma decode_fixture:
  assumes "ParseTime L ''2020-01-02T03:04:05.678901Z'' = Some t"
  shows "decode_Tags L get_tags_200_ok None =
     (None, Some [Some \<lparr>ID = Some 12345678, WorkspaceID = Some 1234567, Name = Some ''toggl-go'',
                        At = Some t, DeletedAt = None\<rparr>])"
  using assms
  by (simp add: decode_Tags_def get_tags_200_ok_def store_defs Tag_field_def store_time_def
      zero_Tag_def)

lemma GetTags_example:
  assumes "dec b None = (e, tags)"
  shows "GetTags std example_workspacesPath (httpGet_spec example_encode dec errorOf)
       (mockClient status b) (Some Background) 1234567 =
     Return (if 200 \<le> status \<and> status \<le> 299
             then (case e of
                     None \<Rightarrow> \<lparr>err = None, out = tags, sent = [tags_request]\<rparr>
                   | Some j \<Rightarrow> \<lparr>err = Some (Wrapped (JSONError j) []), out = None,
                                sent = [tags_request]\<rparr>)
             else \<lparr>err = Some (Wrapped (errorOf \<lparr>Status = status, Body = b\<rparr>) []), out = None,
                   sent = [tags_request]\<rparr>)"
proof -
  have u: "url (mockClient status b) =
      Some \<lparr>Scheme = ''https'', Host = ''toggl.com'', Path = [], RawQuery = []\<rparr>"
    by (simp add: mockClient_def NewClient_def HTTPClient_def Parse_drop_error_def
        Parse_defaultBaseURL)
  have req: "tags_request = \<lparr>Method = ''GET'',
      ReqURL = \<lparr>Scheme = ''https'', Host = ''toggl.com'', Path = [], RawQuery = []\<rparr>
                 \<lparr>Path := ''api/v9/workspaces/1234567/tags'', RawQuery := example_encode None\<rparr>,
      BasicAuth = Some (apiToken (mockClient status b), basicAuthPassword),
      Ctx = Background\<rparr>"
    by (simp add: tags_request_def mockClient_apiToken basicAuthPassword_def example_encode_def)
  from httpGet_spec_answered [where dec = dec and errorOf = errorOf and outp = None
      and encode = example_encode and params = None
      and apiSpecificPath = "''api/v9/workspaces/1234567/tags''",
      OF u mockClient_httpClient req mockServer_answer] assms
  show ?thesis
    by (cases e) (auto simp: GetTags_def Join_example)
qed

text \<open>
  C9, as the two methods have it. When \<open>get\<close> returns an error, the caller's output
  is what it was before the call, unless the error is the decoder's on the body of a
  2xx response: the body is decoded straight into the output, which then holds
  whatever the decoder stored before it failed. \<open>GetTags\<close> returns a nil slice
  whenever it returns an error, whatever its request helper does.
\<close>

theorem output_on_error:
  "(get L dec c ctx rawurl report = Return r \<and> err r = Some e \<longrightarrow>
      out r = report \<or>
      (\<exists>req hc resp j. sent r = [req] \<and> httpClient c = Some hc \<and> hc req = Inr resp \<and>
         200 \<le> Status resp \<and> Status resp \<le> 299 \<and>
         dec (Body resp) report = (Some j, out r) \<and> e = JSONError j)) \<and>
   (GetTags L' workspacesPath httpGet c' ctx' workspaceID = Return r' \<and> err r' \<noteq> None \<longrightarrow>
      out r' = None)"
  using get_error_cases [of L dec c ctx rawurl report r e]
    GetTags_error_nil [of L' workspacesPath httpGet c' ctx' workspaceID r']
  by blast

theorem output_on_error_witness:
  "get std decode_detailedReport (mockClient 401 unauthorized_body) (Some Background) example_URL
     new_detailedReport =
     Return \<lparr>err = Some (ReportsErr \<lparr>Err = \<lparr>Message = ''api token missing'',
                    Tip = ''You can find your API Token in your profile at https://www.toggl.com'',
                    StatusCode = 401\<rparr>\<rparr>),
             out = new_detailedReport,
             sent = [example_request]\<rparr> \<and>
   GetTags std example_workspacesPath (httpGet_spec example_encode (decode_Tags std) example_errorOf)
       (mockClient 400 bad_request_body) (Some Background) 1234567 =
     Return \<lparr>err = Some (Wrapped (JSONError (UnmarshalTypeError ''string'' [])) []),
             out = None, sent = [tags_request]\<rparr>"
proof -
  let ?e = "ReportsErr \<lparr>Err = \<lparr>Message = ''api token missing'',
                    Tip = ''You can find your API Token in your profile at https://www.toggl.com'',
                    StatusCode = 401\<rparr>\<rparr>"
  let ?w = "Wrapped (JSONError (UnmarshalTypeError ''string'' [])) []"
  obtain r where r: "get std decode_detailedReport (mockClient 401 unauthorized_body)
      (Some Background) example_URL new_detailedReport = Return r"
    and e: "err r = Some ?e" and s: "sent r = [example_request]"
    by (simp add: get_example decode_unauthorized_body)
  have no_2xx: "\<not> (\<exists>req hc resp j. sent r = [req] \<and>
      httpClient (mockClient 401 unauthorized_body) = Some hc \<and> hc req = Inr resp \<and>
      200 \<le> Status resp \<and> Status resp \<le> 299 \<and>
      decode_detailedReport (Body resp) new_detailedReport = (Some j, out r) \<and> ?e = JSONError j)"
    by simp
  have err400: "example_errorOf \<lparr>Status = 400, Body = bad_request_body\<rparr> =
      JSONError (UnmarshalTypeError ''string'' [])"
    by (simp add: example_errorOf_def bad_request_body_def decode_ReportsError_def store_defs)
  obtain dt where dt: "decode_Tags std bad_request_body None = dt"
    by simp
  obtain r' where r': "GetTags std example_workspacesPath
      (httpGet_spec example_encode (decode_Tags std) example_errorOf)
      (mockClient 400 bad_request_body) (Some Background) 1234567 = Return r'"
    and e': "err r' = Some ?w" and s': "sent r' = [tags_request]"
    using GetTags_example [where dec = "decode_Tags std" and b = bad_request_body
        and status = 400 and errorOf = example_errorOf, of "fst dt" "snd dt"] dt
    by (simp add: err400)
  from e' have ne: "err r' \<noteq> None" by simp
  from output_on_error [of std decode_detailedReport "mockClient 401 unauthorized_body"
      "Some Background" example_URL new_detailedReport r ?e std example_workspacesPath
      "httpGet_spec example_encode (decode_Tags std) example_errorOf"
      "mockClient 400 bad_request_body" "Some Background" 1234567 r'] r e no_2xx r' ne
  have "out r = new_detailedReport \<and> out r' = None"
    by blast
  with r e s r' e' s' show ?thesis
    by simp
qed

text \<open>
  C9 as stated fails on a 2xx response whose body decodes in part: for a 200 whose
  \<open>total_count\<close> is a number and whose \<open>per_page\<close> is a string, \<open>get\<close> returns the
  decoder's type error and the output already holds the total count.
\<close>

theorem output_partly_decoded_counterexample:
  "get std decode_detailedReport (mockClient 200 mistyped_body) (Some Background) example_URL
     new_detailedReport =
     Return \<lparr>err = Some (JSONError (UnmarshalTypeError ''string'' ''PerPage'')),
             out = \<lparr>TotalCount = 5, PerPage = 0, Data = None\<rparr>,
             sent = [example_request]\<rparr> \<and>
   new_detailedReport = \<lparr>TotalCount = 0, PerPage = 0, Data = None\<rparr>"
  by (simp add: get_example decode_mistyped_body) (simp add: new_detailedReport_def)

text \<open>
  C7. With the request helper as the spec describes it, \<open>GetTags\<close> for workspace
  1234567 on a client whose transport answers 200 with the fixture sends one request
  and returns no error and a list of exactly one tag, with ID 12345678 and name
  \<open>toggl-go\<close> (and, as the test expects, workspace 1234567, the time of the fixture's
  \<open>at\<close> and no \<open>deleted_at\<close>).
\<close>

theorem GetTags_fixture:
  assumes "ParseTime L ''2020-01-02T03:04:05.678901Z'' = Some t"
    and "url c = Some u"
    and "httpClient c = Some (mockServer 200 get_tags_200_ok)"
  shows "\<exists>req. GetTags L workspacesPath (httpGet_spec encode (decode_Tags L) errorOf) c (Some cx)
             1234567 =
           Return \<lparr>err = None,
                   out = Some [Some \<lparr>ID = Some 12345678, WorkspaceID = Some 1234567,
                                      Name = Some ''toggl-go'', At = Some t, DeletedAt = None\<rparr>],
                   sent = [req]\<rparr>"
proof -
  let ?req = "\<lparr>Method = ''GET'',
      ReqURL = u\<lparr>Path := Join L [workspacesPath, Itoa 1234567, ''tags''], RawQuery := encode None\<rparr>,
      BasicAuth = Some (apiToken c, basicAuthPassword), Ctx = cx\<rparr>"
  from httpGet_spec_answered [where dec = "decode_Tags L" and errorOf = errorOf and outp = None
      and encode = encode and params = None, OF assms(2,3) refl mockServer_answer]
  have "httpGet_spec encode (decode_Tags L) errorOf c (Some cx)
      (Join L [workspacesPath, Itoa 1234567, ''tags'']) None None =
    Return \<lparr>err = None,
            out = Some [Some \<lparr>ID = Some 12345678, WorkspaceID = Some 1234567,
                               Name = Some ''toggl-go'', At = Some t, DeletedAt = None\<rparr>],
            sent = [?req]\<rparr>"
    by (simp add: decode_fixture [OF assms(1)])
  then show ?thesis
    by (simp add: GetTags_def)
qed

theorem GetTags_fixture_witness:
  "ParseTime std ''2020-01-02T03:04:05.678901Z'' = Some example_time \<and>
   GetTags std example_workspacesPath (httpGet_spec example_encode (decode_Tags std) example_errorOf)
       (mockClient 200 get_tags_200_ok) (Some Background) 1234567 =
     Return \<lparr>err = None, out = Some [Some toggl_go_tag], sent = [tags_request]\<rparr>"
proof -
  have t: "ParseTime std ''2020-01-02T03:04:05.678901Z'' = Some example_time"
    by (simp add: std_def example_ParseTime_def)
  have u: "url (mockClient 200 get_tags_200_ok) =
      Some \<lparr>Scheme = ''https'', Host = ''toggl.com'', Path = [], RawQuery = []\<rparr>"
    by (simp add: mockClient_def NewClient_def HTTPClient_def Parse_drop_error_def
        Parse_defaultBaseURL)
  from GetTags_fixture [OF t u mockClient_httpClient, of example_workspacesPath example_encode
      example_errorOf Background]
  obtain req where "GetTags std example_workspacesPath
      (httpGet_spec example_encode (decode_Tags std) example_errorOf)
      (mockClient 200 get_tags_200_ok) (Some Background) 1234567 =
    Return \<lparr>err = None, out = Some [Some toggl_go_tag], sent = [req]\<rparr>"
    by (auto simp: toggl_go_tag_def)
  moreover
  have "GetTags std example_workspacesPath
      (httpGet_spec example_encode (decode_Tags std) example_errorOf)
      (mockClient 200 get_tags_200_ok) (Some Background) 1234567 =
    Return \<lparr>err = None, out = Some [Some toggl_go_tag], sent = [tags_request]\<rparr>"
    using GetTags_example [where dec = "decode_Tags std" and b = get_tags_200_ok and status = 200
        and errorOf = example_errorOf, OF decode_fixture [OF t]]
    by (simp add: toggl_go_tag_def)
  ultimately show ?thesis
    using t by simp
qed

text \<open>
  C5 at \<open>DeleteTag\<close>: whatever it is given, the method returns a nil error at once
  and hands no request to any client, where its siblings \<open>GetTags\<close>,
  \<open>CreateTag\<close> and \<open>UpdateTag\<close> hand on exactly the requests of their request
  helper.
\<close>

theorem DeleteTag_sends_no_request:
  "DeleteTag c ctx workspaceID tagID = Return \<lparr>err = None, out = (), sent = []\<rparr> \<and>
   requests_of (DeleteTag c ctx workspaceID tagID) = [] \<and>
   requests_of (GetTags L workspacesPath httpGet c ctx workspaceID) =
     requests_of (httpGet c ctx (Join L [workspacesPath, Itoa workspaceID, ''tags'']) None None) \<and>
   requests_of (CreateTag L workspacesPath httpPost c ctx workspaceID createBody) =
     requests_of (httpPost c ctx (Join L [workspacesPath, Itoa workspaceID, ''tags''])
                    createBody None) \<and>
   requests_of (UpdateTag L workspacesPath httpPut c ctx workspaceID tagID updateBody) =
     requests_of (httpPut c ctx (Join L [workspacesPath, Itoa workspaceID, ''tags'', Itoa tagID])
                    updateBody None)"
  by (simp add: DeleteTag_def GetTags_def CreateTag_def UpdateTag_def Let_def
      split: result.splits option.splits)

end
